theory Spec2Isabelle
  imports Main
begin

section \<open>The database adapter of the SDWIS translation API\<close>

text \<open>
  The adapter (the module \<^verbatim>\<open>db.js\<close>) selects a backend mode from the environment,
  translates PostgreSQL-flavoured SQL to the Oracle and SQL Server dialects with
  regular-expression rewrites, and lowercases the column names of result rows.

  JavaScript strings are modelled as \<^typ>\<open>string\<close>: a \<^typ>\<open>char\<close> stands for a
  UTF-16 code unit below 256 (the Latin-1 range), which covers every character the
  regular expressions of the module name.
\<close>

subsection \<open>Mode selection\<close>

datatype mode = Demo | Mssql | Oracle | Postgresql

text \<open>\<^verbatim>\<open>process.env\<close>: a variable is unset (\<open>None\<close>) or holds a string.\<close>

type_synonym env = "string \<rightharpoonup> string"

text \<open>\<^verbatim>\<open>!!x\<close> for a value that is \<^verbatim>\<open>undefined\<close> or a string: the empty string is falsy.\<close>

definition truthy :: "string option \<Rightarrow> bool" where
  "truthy x = (case x of None \<Rightarrow> False | Some s \<Rightarrow> s \<noteq> [])"

definition FORCE_DEMO :: "env \<Rightarrow> bool" where
  "FORCE_DEMO e = (e ''DEMO_MODE'' = Some ''true'')"

definition USE_MSSQL :: "env \<Rightarrow> bool" where
  "USE_MSSQL e = (\<not> FORCE_DEMO e \<and> truthy (e ''MSSQL_SERVER''))"

definition USE_ORACLE :: "env \<Rightarrow> bool" where
  "USE_ORACLE e = (\<not> FORCE_DEMO e \<and> \<not> USE_MSSQL e \<and> truthy (e ''ORACLE_USER''))"

text \<open>
  The branch of the module's \<^verbatim>\<open>if (FORCE_DEMO) ... else if (USE_MSSQL) ... else if
  (USE_ORACLE) ... else ...\<close> chain, named by the value it assigns to \<^verbatim>\<open>mode\<close>.
\<close>

definition selected_mode :: "env \<Rightarrow> mode" where
  "selected_mode e =
     (if FORCE_DEMO e then Demo
      else if USE_MSSQL e then Mssql
      else if USE_ORACLE e then Oracle
      else Postgresql)"

subsection \<open>Characters\<close>

text \<open>
  \<^verbatim>\<open>\s\<close> on code units below 256: tab, line feed, vertical tab, form feed, carriage
  return, space and the no-break space. \<^verbatim>\<open>\d\<close> is \<^verbatim>\<open>[0-9]\<close>.
\<close>

definition is_space :: "char \<Rightarrow> bool" where
  "is_space c = (of_char c \<in> {9, 10, 11, 12, 13, 32, 160 :: nat})"

definition is_digit :: "char \<Rightarrow> bool" where
  "is_digit c = (48 \<le> (of_char c :: nat) \<and> (of_char c :: nat) \<le> 57)"

text \<open>
  The canonical form of a character under the flag \<^verbatim>\<open>i\<close> (without \<^verbatim>\<open>u\<close>), as its code
  unit: the upper case of the character, except that a non-ASCII character is never
  mapped to an ASCII one. Every literal of the module's patterns is ASCII, so only the
  ASCII letters matter: a non-ASCII character stays non-ASCII and never equals a
  pattern character.
\<close>

definition canon :: "char \<Rightarrow> nat" where
  "canon c = (let n = (of_char c :: nat) in if 97 \<le> n \<and> n \<le> 122 then n - 32 else n)"

text \<open>\<^verbatim>\<open>String.prototype.toLowerCase\<close> on code units below 256.\<close>

definition lower_char :: "char \<Rightarrow> char" where
  "lower_char c =
     (let n = (of_char c :: nat)
      in if (65 \<le> n \<and> n \<le> 90) \<or> (192 \<le> n \<and> n \<le> 214) \<or> (216 \<le> n \<and> n \<le> 222)
         then char_of (n + 32) else c)"

definition toLowerCase :: "string \<Rightarrow> string" where
  "toLowerCase s = map lower_char s"

subsection \<open>Values\<close>

text \<open>
  The JavaScript values that reach the translators: integral numbers (exact while they
  stay within the safe range of a double), strings, \<^verbatim>\<open>undefined\<close> (an array read out
  of range) and \<^verbatim>\<open>NaN\<close>.
\<close>

datatype jsval = Num int | Str string | Undefined | NaN


definition digit_char :: "nat \<Rightarrow> char" where
  "digit_char d = char_of (48 + d)"

fun show_nat :: "nat \<Rightarrow> string" where
  "show_nat n = (if n < 10 then [digit_char n] else show_nat (n div 10) @ [digit_char (n mod 10)])"

declare show_nat.simps [simp del]

definition show_int :: "int \<Rightarrow> string" where
  "show_int i = (if i < 0 then CHR ''-'' # show_nat (nat (- i)) else show_nat (nat i))"

text \<open>\<^verbatim>\<open>ToString\<close>, as a template literal applies it.\<close>

fun js_to_string :: "jsval \<Rightarrow> string" where
  "js_to_string (Num i) = show_int i"
| "js_to_string (Str s) = s"
| "js_to_string Undefined = ''undefined''"
| "js_to_string NaN = ''NaN''"

text \<open>
  The operator \<^verbatim>\<open>+\<close>: concatenation as soon as one operand is a string, addition of
  numbers otherwise, where \<^verbatim>\<open>undefined\<close> converts to \<^verbatim>\<open>NaN\<close>.
\<close>

fun js_add :: "jsval \<Rightarrow> jsval \<Rightarrow> jsval" where
  "js_add (Str a) v = Str (a @ js_to_string v)"
| "js_add v (Str b) = Str (js_to_string v @ b)"
| "js_add (Num a) (Num b) = Num (a + b)"
| "js_add _ _ = NaN"

text \<open>\<^verbatim>\<open>parseInt\<close> on a captured \<^verbatim>\<open>\d+\<close>: a non-empty string of decimal digits.\<close>

definition digit_val :: "char \<Rightarrow> nat" where
  "digit_val c = of_char c - 48"

definition parseInt :: "string \<Rightarrow> int" where
  "parseInt ds = int (foldl (\<lambda>a c. 10 * a + digit_val c) 0 ds)"

text \<open>\<^verbatim>\<open>params[i]\<close>: a read outside the array yields \<^verbatim>\<open>undefined\<close>.\<close>

definition js_index :: "jsval list \<Rightarrow> int \<Rightarrow> jsval" where
  "js_index ps i = (if 0 \<le> i \<and> i < int (length ps) then ps ! nat i else Undefined)"

subsection \<open>Regular expressions\<close>

text \<open>
  The patterns of the module are sequences of three kinds of items: a literal, a greedy
  repetition of a character class with a minimum count (\<^verbatim>\<open>\s+\<close>, \<^verbatim>\<open>\s*\<close>), and such a
  repetition inside a capturing group (\<^verbatim>\<open>(\S+)\<close>, \<^verbatim>\<open>(\d+)\<close>).
\<close>

datatype cls = Space | NonSpace | Digit

fun in_cls :: "cls \<Rightarrow> char \<Rightarrow> bool" where
  "in_cls Space c = is_space c"
| "in_cls NonSpace c = (\<not> is_space c)"
| "in_cls Digit c = is_digit c"

datatype rx_item = Lit string | Rep cls nat | Grp cls nat

text \<open>A literal at the head of the subject; the flag is the pattern's \<^verbatim>\<open>i\<close>.\<close>

fun lit_prefix :: "bool \<Rightarrow> string \<Rightarrow> string \<Rightarrow> bool" where
  "lit_prefix ic [] s = True"
| "lit_prefix ic (x # w) [] = False"
| "lit_prefix ic (x # w) (c # s) =
     ((if ic then canon x = canon c else x = c) \<and> lit_prefix ic w s)"

fun first_some :: "('a \<Rightarrow> 'b option) \<Rightarrow> 'a list \<Rightarrow> 'b option" where
  "first_some f [] = None"
| "first_some f (x # xs) = (case f x of Some y \<Rightarrow> Some y | None \<Rightarrow> first_some f xs)"

text \<open>
  The counts a greedy repetition tries, in the order it tries them: as many characters
  of the class as the subject offers, then one fewer on each backtrack, down to the
  minimum.
\<close>

definition greedy_counts :: "cls \<Rightarrow> nat \<Rightarrow> string \<Rightarrow> nat list" where
  "greedy_counts c mn s = rev [mn ..< Suc (length (takeWhile (in_cls c) s))]"

text \<open>
  A backtracking match of a pattern at the head of the subject: the captures in order
  and the unmatched rest, or \<open>None\<close>.
\<close>

fun rx_try :: "bool \<Rightarrow> rx_item list \<Rightarrow> string \<Rightarrow> (string list \<times> string) option" where
  "rx_try ic [] s = Some ([], s)"
| "rx_try ic (Lit w # its) s =
     (if lit_prefix ic w s then rx_try ic its (drop (length w) s) else None)"
| "rx_try ic (Rep c mn # its) s =
     first_some (\<lambda>n. rx_try ic its (drop n s)) (greedy_counts c mn s)"
| "rx_try ic (Grp c mn # its) s =
     first_some (\<lambda>n. map_option (\<lambda>(caps, rest). (take n s # caps, rest)) (rx_try ic its (drop n s)))
       (greedy_counts c mn s)"

text \<open>
  \<^verbatim>\<open>String.prototype.match\<close> with a pattern without the flag \<^verbatim>\<open>g\<close>: the leftmost
  match, as the text before it, its captures and the text after it.
\<close>

fun rx_search :: "bool \<Rightarrow> rx_item list \<Rightarrow> string \<Rightarrow> (string \<times> string list \<times> string) option" where
  "rx_search ic rx [] = map_option (\<lambda>(caps, rest). ([], caps, rest)) (rx_try ic rx [])"
| "rx_search ic rx (c # cs) =
     (case rx_try ic rx (c # cs) of
        Some (caps, rest) \<Rightarrow> Some ([], caps, rest)
      | None \<Rightarrow> map_option (\<lambda>(pre, caps, rest). (c # pre, caps, rest)) (rx_search ic rx cs))"

text \<open>A replacement string: literal text and group references \<^verbatim>\<open>$1\<close>, \<^verbatim>\<open>$2\<close>.\<close>

datatype tpl_item = TLit string | TGrp nat

fun expand_item :: "string list \<Rightarrow> tpl_item \<Rightarrow> string" where
  "expand_item caps (TLit s) = s"
| "expand_item caps (TGrp k) =
     (if 1 \<le> k \<and> k \<le> length caps then caps ! (k - 1) else CHR ''$'' # show_nat k)"

definition expand :: "tpl_item list \<Rightarrow> string list \<Rightarrow> string" where
  "expand tpl caps = concat (map (expand_item caps) tpl)"

text \<open>\<^verbatim>\<open>String.prototype.replace\<close> with a pattern without the flag \<^verbatim>\<open>g\<close>.\<close>

definition replace_first :: "bool \<Rightarrow> rx_item list \<Rightarrow> tpl_item list \<Rightarrow> string \<Rightarrow> string" where
  "replace_first ic rx tpl s =
     (case rx_search ic rx s of
        None \<Rightarrow> s
      | Some (pre, caps, rest) \<Rightarrow> pre @ expand tpl caps @ rest)"

text \<open>
  \<^verbatim>\<open>String.prototype.replace\<close> with the flag \<^verbatim>\<open>g\<close>: after a match the search goes on
  behind it; after an empty match it moves one character on.
\<close>

fun replace_all :: "bool \<Rightarrow> rx_item list \<Rightarrow> tpl_item list \<Rightarrow> string \<Rightarrow> string" where
  "replace_all ic rx tpl s =
     (case rx_try ic rx s of
        Some (caps, rest) \<Rightarrow>
          (if length rest < length s then expand tpl caps @ replace_all ic rx tpl rest
           else expand tpl caps @ (case s of [] \<Rightarrow> [] | c # cs \<Rightarrow> c # replace_all ic rx tpl cs))
      | None \<Rightarrow> (case s of [] \<Rightarrow> [] | c # cs \<Rightarrow> c # replace_all ic rx tpl cs))"

declare replace_all.simps [simp del]

subsection \<open>The patterns and replacement strings of the translators\<close>

text \<open>\<^verbatim>\<open>/\$(\d+)/g\<close>, replaced by \<^verbatim>\<open>':$1'\<close> (Oracle) or \<^verbatim>\<open>'@p$1'\<close> (SQL Server).\<close>

definition placeholder_rx :: "rx_item list" where
  "placeholder_rx = [Lit ''$'', Grp Digit 1]"

definition oracle_placeholder :: "tpl_item list" where
  "oracle_placeholder = [TLit '':'', TGrp 1]"

definition mssql_placeholder :: "tpl_item list" where
  "mssql_placeholder = [TLit ''@p'', TGrp 1]"

text \<open>
  \<^verbatim>\<open>/(\S+)\s+ILIKE\s+(\S+)/gi\<close>, replaced by \<^verbatim>\<open>'UPPER($1) LIKE UPPER($2)'\<close> (Oracle) or
  \<^verbatim>\<open>'$1 LIKE $2'\<close> (SQL Server).
\<close>

definition ilike_rx :: "rx_item list" where
  "ilike_rx = [Grp NonSpace 1, Rep Space 1, Lit ''ILIKE'', Rep Space 1, Grp NonSpace 1]"

definition oracle_ilike :: "tpl_item list" where
  "oracle_ilike = [TLit ''UPPER('', TGrp 1, TLit '') LIKE UPPER('', TGrp 2, TLit '')'']"

definition mssql_ilike :: "tpl_item list" where
  "mssql_ilike = [TGrp 1, TLit '' LIKE '', TGrp 2]"

text \<open>
  Oracle: \<^verbatim>\<open>/LIMIT\s+:(\d+)\s+OFFSET\s+:(\d+)/i\<close> finds the clause and
  \<^verbatim>\<open>/\s*LIMIT\s+:\d+\s+OFFSET\s+:\d+/i\<close> removes it.
\<close>

definition oracle_limit_rx :: "rx_item list" where
  "oracle_limit_rx =
     [Lit ''LIMIT'', Rep Space 1, Lit '':'', Grp Digit 1, Rep Space 1,
      Lit ''OFFSET'', Rep Space 1, Lit '':'', Grp Digit 1]"

definition oracle_strip_rx :: "rx_item list" where
  "oracle_strip_rx =
     [Rep Space 0, Lit ''LIMIT'', Rep Space 1, Lit '':'', Rep Digit 1, Rep Space 1,
      Lit ''OFFSET'', Rep Space 1, Lit '':'', Rep Digit 1]"

text \<open>
  SQL Server: \<^verbatim>\<open>/\s*LIMIT\s+@p(\d+)\s+OFFSET\s+@p(\d+)/i\<close> finds the clause and
  \<^verbatim>\<open>/\s*LIMIT\s+@p\d+\s+OFFSET\s+@p\d+/i\<close> removes it.
\<close>

definition mssql_limit_rx :: "rx_item list" where
  "mssql_limit_rx =
     [Rep Space 0, Lit ''LIMIT'', Rep Space 1, Lit ''@p'', Grp Digit 1, Rep Space 1,
      Lit ''OFFSET'', Rep Space 1, Lit ''@p'', Grp Digit 1]"

definition mssql_strip_rx :: "rx_item list" where
  "mssql_strip_rx =
     [Rep Space 0, Lit ''LIMIT'', Rep Space 1, Lit ''@p'', Rep Digit 1, Rep Space 1,
      Lit ''OFFSET'', Rep Space 1, Lit ''@p'', Rep Digit 1]"

text \<open>\<^verbatim>\<open>/COUNT\(\*\)\s+as\s+total/gi\<close>, replaced by \<^verbatim>\<open>'COUNT(*) total'\<close> (Oracle only).\<close>

definition count_rx :: "rx_item list" where
  "count_rx = [Lit ''COUNT(*)'', Rep Space 1, Lit ''as'', Rep Space 1, Lit ''total'']"

definition oracle_count :: "tpl_item list" where
  "oracle_count = [TLit ''COUNT(*) total'']"

subsection \<open>The translators\<close>

text \<open>
  \<^verbatim>\<open>limitMatch[k]\<close>: the k-th capture. Both clause patterns have two groups, so the
  reads \<open>capture caps 1\<close> and \<open>capture caps 2\<close> of a match are in range.
\<close>

definition capture :: "string list \<Rightarrow> nat \<Rightarrow> string" where
  "capture caps k = caps ! (k - 1)"

text \<open>\<^verbatim>\<open>params.filter((_, i) => i !== limitIdx && i !== offsetIdx)\<close>\<close>

definition drop_indices :: "int \<Rightarrow> int \<Rightarrow> jsval list \<Rightarrow> jsval list" where
  "drop_indices limitIdx offsetIdx ps =
     map snd (filter (\<lambda>(i, v). int i \<noteq> limitIdx \<and> int i \<noteq> offsetIdx) (enumerate 0 ps))"

text \<open>
  The Oracle 11g wrapper, a template literal over three lines of the source; the line
  breaks and the indentation belong to the text.
\<close>

definition rownum_wrap :: "string \<Rightarrow> jsval \<Rightarrow> jsval \<Rightarrow> string" where
  "rownum_wrap sql limit offset =
     ''SELECT * FROM ('' @ [CHR 0x0A] @
     ''      SELECT a.*, ROWNUM rn FROM ('' @ sql @ '') a'' @ [CHR 0x0A] @
     ''      WHERE ROWNUM <= '' @ js_to_string (js_add offset limit) @ [CHR 0x0A] @
     ''    ) WHERE rn > '' @ js_to_string offset"

text \<open>
  The bind object \<^verbatim>\<open>{ "1": val, "2": val, ... }\<close>, as its entries in the order the
  loop writes them.
\<close>

definition bind_object :: "jsval list option \<Rightarrow> (string \<times> jsval) list" where
  "bind_object params =
     (case params of
        None \<Rightarrow> []
      | Some ps \<Rightarrow> map (\<lambda>(i, v). (show_nat (i + 1), v)) (enumerate 0 ps))"

record oracle_result =
  ora_sql :: string
  ora_binds :: "(string \<times> jsval) list"
  ora_filteredParams :: "jsval list option"

record mssql_result =
  ms_sql :: string
  ms_filteredParams :: "jsval list option"

text \<open>
  \<open>params\<close> is \<open>None\<close> when the caller passes no array (\<^verbatim>\<open>undefined\<close>, falsy); an
  array, also an empty one, is truthy.
\<close>

definition translateToOracle :: "string \<Rightarrow> jsval list option \<Rightarrow> oracle_result" where
  "translateToOracle text params =
     (let sql1 = replace_all False placeholder_rx oracle_placeholder text;
          sql2 = replace_all True ilike_rx oracle_ilike sql1;
          (sql3, params') =
            (case (rx_search True oracle_limit_rx sql2, params) of
               (Some (pre, caps, rest), Some ps) \<Rightarrow>
                 (let limitIdx = parseInt (capture caps 1) - 1;
                      offsetIdx = parseInt (capture caps 2) - 1;
                      limit = js_index ps limitIdx;
                      offset = js_index ps offsetIdx
                  in (rownum_wrap (replace_first True oracle_strip_rx [] sql2) limit offset,
                      Some (drop_indices limitIdx offsetIdx ps)))
             | _ \<Rightarrow> (sql2, params));
          sql4 = replace_all True count_rx oracle_count sql3
      in \<lparr>ora_sql = sql4, ora_binds = bind_object params', ora_filteredParams = params'\<rparr>)"

definition translateToMssql :: "string \<Rightarrow> jsval list option \<Rightarrow> mssql_result" where
  "translateToMssql text params =
     (let sql1 = replace_all False placeholder_rx mssql_placeholder text;
          sql2 = replace_all True ilike_rx mssql_ilike sql1
      in (case (rx_search True mssql_limit_rx sql2, params) of
            (Some (pre, caps, rest), Some ps) \<Rightarrow>
              (let limitIdx = parseInt (capture caps 1) - 1;
                   offsetIdx = parseInt (capture caps 2) - 1;
                   limit = js_index ps limitIdx;
                   offset = js_index ps offsetIdx
               in \<lparr>ms_sql = replace_first True mssql_strip_rx [] sql2 @
                            '' OFFSET '' @ js_to_string offset @
                            '' ROWS FETCH NEXT '' @ js_to_string limit @ '' ROWS ONLY'',
                     ms_filteredParams = Some (drop_indices limitIdx offsetIdx ps)\<rparr>)
          | _ \<Rightarrow> \<lparr>ms_sql = sql2, ms_filteredParams = params\<rparr>))"

subsection \<open>Lowercasing column names\<close>

text \<open>
  A row object is given by its entries (\<^verbatim>\<open>Object.entries\<close>): the fields in enumeration
  order, with pairwise distinct keys. \<^verbatim>\<open>lower[k] = v\<close> overwrites the value of a key
  that is there, in its place, and appends a new key at the end.
\<close>

type_synonym 'v row = "(string \<times> 'v) list"

fun obj_set :: "string \<Rightarrow> 'v \<Rightarrow> 'v row \<Rightarrow> 'v row" where
  "obj_set k v [] = [(k, v)]"
| "obj_set k v ((k', v') # r) = (if k' = k then (k, v) # r else (k', v') # obj_set k v r)"

definition lowercase_row :: "'v row \<Rightarrow> 'v row" where
  "lowercase_row row = foldl (\<lambda>lower (k, v). obj_set (toLowerCase k) v lower) [] row"

definition lowercaseKeys :: "'v row list \<Rightarrow> 'v row list" where
  "lowercaseKeys rows = map lowercase_row rows"

subsection \<open>The module state and its callbacks\<close>

text \<open>
  The module variables \<^verbatim>\<open>mode\<close> and \<^verbatim>\<open>pool\<close>, the promise \<^verbatim>\<open>poolReady\<close> of the SQL
  Server and Oracle branches, the promise of the PostgreSQL probe
  \<^verbatim>\<open>pool.query('SELECT 1')\<close>, and the branch that was taken while the module loaded (it
  fixes which \<^verbatim>\<open>query\<close> function is exported).
\<close>

datatype promise = Pending | Settled

datatype pool_obj = Pool

record state =
  mode :: mode
  pool :: "pool_obj option"
  poolReady :: promise
  probe :: promise
  selected :: mode

text \<open>
  \<^verbatim>\<open>oracledb.initOracleClient()\<close> returns, throws an error whose message says
  "already initialized" (swallowed), or throws another error (rethrown: the module does
  not load).
\<close>

datatype client_init = Init_ok | Already_initialized | Init_error

text \<open>The synchronous part of the module; \<open>None\<close> when it throws.\<close>

definition load :: "env \<Rightarrow> client_init \<Rightarrow> state option" where
  "load e ci =
     (case selected_mode e of
        Demo \<Rightarrow>
          Some \<lparr>mode = Demo, pool = None, poolReady = Settled, probe = Settled, selected = Demo\<rparr>
      | Mssql \<Rightarrow>
          Some \<lparr>mode = Mssql, pool = None, poolReady = Pending, probe = Settled, selected = Mssql\<rparr>
      | Oracle \<Rightarrow>
          (if ci = Init_error then None
           else Some \<lparr>mode = Oracle, pool = None, poolReady = Pending, probe = Settled,
                      selected = Oracle\<rparr>)
      | Postgresql \<Rightarrow>
          Some \<lparr>mode = Postgresql, pool = Some Pool, poolReady = Settled, probe = Pending,
                selected = Postgresql\<rparr>)"

text \<open>
  The callbacks that run after loading, each as one step: the connection attempt of the
  SQL Server or Oracle branch resolves (\<^verbatim>\<open>pool = p\<close>) or rejects (\<^verbatim>\<open>mode = 'demo'\<close>), the
  PostgreSQL probe resolves (nothing happens) or rejects (\<^verbatim>\<open>mode = 'demo'\<close>), and a
  body of \<^verbatim>\<open>query\<close> runs, which assigns no module variable. A step that is not enabled
  yields \<open>None\<close>.
\<close>

datatype event = Connect_resolved | Connect_rejected | Probe_resolved | Probe_rejected | Query_run

fun fire :: "event \<Rightarrow> state \<Rightarrow> state option" where
  "fire Connect_resolved s =
     (if poolReady s = Pending then Some (s\<lparr>pool := Some Pool, poolReady := Settled\<rparr>) else None)"
| "fire Connect_rejected s =
     (if poolReady s = Pending then Some (s\<lparr>mode := Demo, poolReady := Settled\<rparr>) else None)"
| "fire Probe_resolved s =
     (if probe s = Pending then Some (s\<lparr>probe := Settled\<rparr>) else None)"
| "fire Probe_rejected s =
     (if probe s = Pending then Some (s\<lparr>mode := Demo, probe := Settled\<rparr>) else None)"
| "fire Query_run s = Some s"

fun run :: "event list \<Rightarrow> state \<Rightarrow> state option" where
  "run [] s = Some s"
| "run (ev # evs) s = (case fire ev s of None \<Rightarrow> None | Some s' \<Rightarrow> run evs s')"

subsection \<open>The query functions\<close>

text \<open>
  A call on the pool and what the driver answers: a result whose row array may be
  missing (\<^verbatim>\<open>result.recordset || []\<close>, \<^verbatim>\<open>result.rows || []\<close>), or a rejection.
\<close>

datatype request =
    Mssql_request string "jsval list option"
  | Oracle_execute string "(string \<times> jsval) list"
  | Pg_query string "jsval list option"

datatype 'v reply = Result "'v row list option" | Rejected string

datatype 'v outcome = Returned "'v row list" | Returned_undefined | Threw string

record 'v call =
  outcome :: "'v outcome"
  pool_calls :: "request list"

text \<open>\<^verbatim>\<open>params ? [...params] : []\<close>\<close>

definition params_copy :: "jsval list option \<Rightarrow> jsval list option" where
  "params_copy params = Some (case params of None \<Rightarrow> [] | Some ps \<Rightarrow> ps)"

definition or_empty :: "'v row list option \<Rightarrow> 'v row list" where
  "or_empty rs = (case rs of None \<Rightarrow> [] | Some rows \<Rightarrow> rows)"

text \<open>
  The exported \<^verbatim>\<open>query\<close> of each branch, run in a given module state. The result is
  \<open>None\<close> while the call is suspended at \<^verbatim>\<open>await poolReady\<close>; otherwise it is what the
  call returns or throws, with the calls it made on the pool. A method call on a pool
  that is \<^verbatim>\<open>undefined\<close> throws a \<^verbatim>\<open>TypeError\<close>.
\<close>

definition query ::
  "(request \<Rightarrow> 'v reply) \<Rightarrow> state \<Rightarrow> string \<Rightarrow> jsval list option \<Rightarrow> 'v call option" where
  "query drv s text params =
     (case selected s of
        Demo \<Rightarrow> Some \<lparr>outcome = Returned [], pool_calls = []\<rparr>
      | Mssql \<Rightarrow>
          (if poolReady s = Pending then None
           else if mode s = Demo then Some \<lparr>outcome = Returned [], pool_calls = []\<rparr>
           else
             (let t = translateToMssql text (params_copy params);
                  req = Mssql_request (ms_sql t) (ms_filteredParams t)
              in case pool s of
                   None \<Rightarrow> Some \<lparr>outcome = Threw ''TypeError'', pool_calls = []\<rparr>
                 | Some p \<Rightarrow>
                     (case drv req of
                        Rejected err \<Rightarrow> Some \<lparr>outcome = Threw err, pool_calls = [req]\<rparr>
                      | Result rs \<Rightarrow>
                          Some \<lparr>outcome = Returned (lowercaseKeys (or_empty rs)),
                                pool_calls = [req]\<rparr>)))
      | Oracle \<Rightarrow>
          (if poolReady s = Pending then None
           else if mode s = Demo then Some \<lparr>outcome = Returned [], pool_calls = []\<rparr>
           else
             (let t = translateToOracle text (params_copy params);
                  req = Oracle_execute (ora_sql t) (ora_binds t)
              in case pool s of
                   None \<Rightarrow> Some \<lparr>outcome = Threw ''TypeError'', pool_calls = []\<rparr>
                 | Some p \<Rightarrow>
                     (case drv req of
                        Rejected err \<Rightarrow> Some \<lparr>outcome = Threw err, pool_calls = [req]\<rparr>
                      | Result rs \<Rightarrow>
                          Some \<lparr>outcome = Returned (lowercaseKeys (or_empty rs)),
                                pool_calls = [req]\<rparr>)))
      | Postgresql \<Rightarrow>
          (let req = Pg_query text params
           in case pool s of
                None \<Rightarrow> Some \<lparr>outcome = Threw ''TypeError'', pool_calls = []\<rparr>
              | Some p \<Rightarrow>
                  (case drv req of
                     Rejected err \<Rightarrow> Some \<lparr>outcome = Threw err, pool_calls = [req]\<rparr>
                   | Result rs \<Rightarrow>
                       Some \<lparr>outcome = (case rs of None \<Rightarrow> Returned_undefined
                                         | Some rows \<Rightarrow> Returned rows),
                             pool_calls = [req]\<rparr>)))"

subsection \<open>Notions used to state the properties\<close>

text \<open>A text occurs in another, compared as a literal of a pattern is.\<close>

fun contains :: "bool \<Rightarrow> string \<Rightarrow> string \<Rightarrow> bool" where
  "contains ic w [] = lit_prefix ic w []"
| "contains ic w (c # s) = (lit_prefix ic w (c # s) \<or> contains ic w s)"


text \<open>Two texts are equal up to the case of their letters, as the flag \<^verbatim>\<open>i\<close> compares.\<close>

definition ci_eq :: "string \<Rightarrow> string \<Rightarrow> bool" where
  "ci_eq a b = (map canon a = map canon b)"


definition spaces :: "string \<Rightarrow> bool" where
  "spaces w = (w \<noteq> [] \<and> list_all is_space w)"

text \<open>
  A case-insensitive comparison as it stands in a text: the left operand, white space,
  the operator, white space, the right operand; and what each dialect makes of it.
\<close>

type_synonym comparison = "string \<times> string \<times> string \<times> string \<times> string"







text \<open>
  Changing only the placeholder syntax, in the words of the specification: every \<^verbatim>\<open>$\<close>
  that a digit follows is replaced by the marker of the dialect, and every other
  character, each digit among them, stays as it is.
\<close>

fun placeholders_only :: "string \<Rightarrow> string \<Rightarrow> string" where
  "placeholders_only mk [] = []"
| "placeholders_only mk (c # cs) =
     (if c = CHR ''$'' \<and> cs \<noteq> [] \<and> is_digit (hd cs) then mk @ placeholders_only mk cs
      else c # placeholders_only mk cs)"


text \<open>
  The value of \<^verbatim>\<open>sql\<close> in \<^verbatim>\<open>translateToMssql\<close> after the same two rewrites (lines 67 and
  70).
\<close>

definition mssql_working_text :: "string \<Rightarrow> string" where
  "mssql_working_text text =
     replace_all True ilike_rx mssql_ilike
       (replace_all False placeholder_rx mssql_placeholder text)"

text \<open>The two markers that replace the \<^verbatim>\<open>$\<close> of a placeholder.\<close>

definition dialect_marker :: "string \<Rightarrow> bool" where
  "dialect_marker mk = (mk = '':'' \<or> mk = ''@p'')"

text \<open>
  The comparisons of a text and the texts behind them, each with its placeholders in
  the syntax of the dialect.
\<close>

definition placeholders_in :: "string \<Rightarrow> comparison \<Rightarrow> comparison" where
  "placeholders_in mk c =
     (case c of (l, w1, op, w2, r) \<Rightarrow>
        (placeholders_only mk l, w1, op, w2, placeholders_only mk r))"

definition placeholders_between ::
  "string \<Rightarrow> (comparison \<times> string) list \<Rightarrow> (comparison \<times> string) list" where
  "placeholders_between mk cs =
     map (\<lambda>(c, g). (placeholders_in mk c, placeholders_only mk g)) cs"

text \<open>
  A pagination clause as it stands in a text: white space, \<^verbatim>\<open>LIMIT\<close>, white space, a
  placeholder, white space, \<^verbatim>\<open>OFFSET\<close>, white space, a placeholder. The placeholders
  are given by their digits; \<open>clause_text\<close> writes them behind a marker, which is \<^verbatim>\<open>$\<close>
  in the canonical text.
\<close>

type_synonym clause =
  "string \<times> string \<times> string \<times> string \<times> string \<times> string \<times> string \<times> string"

definition clause_text :: "string \<Rightarrow> clause \<Rightarrow> string" where
  "clause_text mk p =
     (case p of (w0, kwL, w1, d1, w2, kwO, w3, d2) \<Rightarrow>
        w0 @ kwL @ w1 @ mk @ d1 @ w2 @ kwO @ w3 @ mk @ d2)"

definition digits :: "string \<Rightarrow> bool" where
  "digits d = (d \<noteq> [] \<and> list_all is_digit d)"

definition well_formed_clause :: "clause \<Rightarrow> bool" where
  "well_formed_clause p =
     (case p of (w0, kwL, w1, d1, w2, kwO, w3, d2) \<Rightarrow>
        spaces w0 \<and> ci_eq kwL ''LIMIT'' \<and> spaces w1 \<and> digits d1 \<and>
        spaces w2 \<and> ci_eq kwO ''OFFSET'' \<and> spaces w3 \<and> digits d2)"

text \<open>The numbers of the two placeholders of a clause, as \<^verbatim>\<open>parseInt\<close> reads them.\<close>

definition limit_number :: "clause \<Rightarrow> int" where
  "limit_number p = (case p of (w0, kwL, w1, d1, w2, kwO, w3, d2) \<Rightarrow> parseInt d1)"

definition offset_number :: "clause \<Rightarrow> int" where
  "offset_number p = (case p of (w0, kwL, w1, d1, w2, kwO, w3, d2) \<Rightarrow> parseInt d2)"



text \<open>A text ends with another.\<close>

definition ends_with :: "string \<Rightarrow> string \<Rightarrow> bool" where
  "ends_with w s = lit_prefix False (rev w) (rev s)"


text \<open>The scenario of the specification: a name filter with pagination.\<close>

definition scenario_text :: string where
  "scenario_text = ''SELECT * FROM t WHERE name ILIKE $1 LIMIT $2 OFFSET $3''"

definition scenario_binds :: "jsval list option" where
  "scenario_binds = Some [Str ''%abc%'', Num 5, Num 10]"

definition scenario_oracle_sql :: string where
  "scenario_oracle_sql =
     ''SELECT * FROM ('' @ [CHR 0x0A] @
     ''      SELECT a.*, ROWNUM rn FROM (SELECT * FROM t WHERE UPPER(name) LIKE UPPER(:1)) a'' @
     [CHR 0x0A] @
     ''      WHERE ROWNUM <= 15'' @ [CHR 0x0A] @
     ''    ) WHERE rn > 10''"

definition scenario_mssql_sql :: string where
  "scenario_mssql_sql =
     ''SELECT * FROM t WHERE name LIKE @p1 OFFSET 10 ROWS FETCH NEXT 5 ROWS ONLY''"

section \<open>Properties\<close>

subsection \<open>The matcher\<close>


lemma canon_eq_digit: "canon x = canon c \<Longrightarrow> is_digit x = is_digit c"
  by (auto simp: is_digit_def canon_def Let_def split: if_splits)


lemma greedy_counts_max:
  "mn \<le> length (takeWhile (in_cls c) s) \<Longrightarrow>
   greedy_counts c mn s = length (takeWhile (in_cls c) s) # rev [mn ..< length (takeWhile (in_cls c) s)]"
  by (simp add: greedy_counts_def)

lemma greedy_counts_empty:
  "length (takeWhile (in_cls c) s) < mn \<Longrightarrow> greedy_counts c mn s = []"
  by (simp add: greedy_counts_def)


lemma drop_takeWhile_run: "drop (length (takeWhile P s)) s = dropWhile P s"
  by (induction s) auto




lemma rep_last:
  "rx_try ic [Rep c mn] s =
     (if mn \<le> length (takeWhile (in_cls c) s)
      then Some ([], dropWhile (in_cls c) s) else None)"
  by (simp add: greedy_counts_max greedy_counts_empty drop_takeWhile_run)



lemma rep_nil_fail: "0 < mn \<Longrightarrow> rx_try ic (Rep c mn # its) [] = None"
  by (simp add: greedy_counts_def)

lemma grp_nil_fail: "0 < mn \<Longrightarrow> rx_try ic (Grp c mn # its) [] = None"
  by (simp add: greedy_counts_def)

lemma run_nonempty: "(Suc 0 \<le> length (takeWhile P s)) = (s \<noteq> [] \<and> P (hd s))"
  by (cases s) auto







lemma contains_Cons: "contains ic w s \<Longrightarrow> contains ic w (c # s)"
  by simp







declare rx_try.simps [simp del]


























subsection \<open>The placeholder rewrite\<close>


















subsection \<open>Lowercasing column names\<close>






















lemma last_filter_map:
  "filter (\<lambda>f. P (g f)) xs \<noteq> [] \<Longrightarrow> last (filter P (map g xs)) = g (last (filter (\<lambda>f. P (g f)) xs))"
  by (simp add: filter_map comp_def last_map)






subsection \<open>Mode selection and the mode at run time\<close>

text \<open>
  C9. The branch taken at process start: demo when \<^verbatim>\<open>DEMO_MODE\<close> is the string
  \<^verbatim>\<open>true\<close>; otherwise SQL Server when \<^verbatim>\<open>MSSQL_SERVER\<close> is set to a non-empty string;
  otherwise Oracle when \<^verbatim>\<open>ORACLE_USER\<close> is set to a non-empty string; otherwise
  PostgreSQL. This holds for every environment.
\<close>

theorem mode_selection_precedence:
  "selected_mode e =
     (if e ''DEMO_MODE'' = Some ''true'' then Demo
      else if truthy (e ''MSSQL_SERVER'') then Mssql
      else if truthy (e ''ORACLE_USER'') then Oracle
      else Postgresql)"
  by (simp add: selected_mode_def FORCE_DEMO_def USE_MSSQL_def USE_ORACLE_def)

lemma mode_selection_load:
  "load e ci = Some s \<Longrightarrow> mode s = selected_mode e \<and> selected s = selected_mode e"
  by (auto simp: load_def split: mode.splits if_splits)

lemma fire_mode:
  "fire ev s = Some s' \<Longrightarrow>
     selected s' = selected s \<and>
     (mode s' = mode s \<or> (mode s' = Demo \<and> (ev = Connect_rejected \<or> ev = Probe_rejected)))"
  by (cases ev) (auto split: if_splits)

lemma run_mode:
  "run evs s = Some s' \<Longrightarrow> selected s' = selected s \<and> (mode s' = mode s \<or> mode s' = Demo)"
proof (induction evs arbitrary: s)
  case Nil then show ?case by simp
next
  case (Cons ev evs)
  then obtain s1 where f: "fire ev s = Some s1" and r: "run evs s1 = Some s'"
    by (auto split: option.splits)
  from fire_mode [OF f] Cons.IH [OF r] show ?case by auto
qed

text \<open>
  C6. In every state reached from the loaded module by any sequence of steps, the mode
  is the selected one or demo; a further step leaves the mode as it is, or changes a
  non-demo mode to demo, and then the step is a rejected connection attempt or a
  rejected probe. So no step leaves demo, and none goes from one dialect to another.
\<close>

theorem mode_one_way:
  assumes "load e ci = Some s0" and "run evs s0 = Some s" and "fire ev s = Some s'"
  shows "(mode s = selected_mode e \<or> mode s = Demo) \<and>
         (mode s' = mode s \<or>
          (mode s \<noteq> Demo \<and> mode s' = Demo \<and> (ev = Connect_rejected \<or> ev = Probe_rejected)))"
  using mode_selection_load [OF assms(1)] run_mode [OF assms(2)] fire_mode [OF assms(3)]
  by auto

theorem mode_one_way_witness:
  "load Map.empty Init_ok =
     Some \<lparr>mode = Postgresql, pool = Some Pool, poolReady = Settled, probe = Pending,
           selected = Postgresql\<rparr> \<and>
   run [Query_run] \<lparr>mode = Postgresql, pool = Some Pool, poolReady = Settled, probe = Pending,
           selected = Postgresql\<rparr> =
     Some \<lparr>mode = Postgresql, pool = Some Pool, poolReady = Settled, probe = Pending,
           selected = Postgresql\<rparr> \<and>
   fire Probe_rejected \<lparr>mode = Postgresql, pool = Some Pool, poolReady = Settled, probe = Pending,
           selected = Postgresql\<rparr> =
     Some \<lparr>mode = Demo, pool = Some Pool, poolReady = Settled, probe = Settled,
           selected = Postgresql\<rparr> \<and>
   mode \<lparr>mode = Demo, pool = Some Pool, poolReady = Settled, probe = Settled,
           selected = Postgresql\<rparr> = Demo"
proof -
  let ?s = "\<lparr>mode = Postgresql, pool = Some Pool, poolReady = Settled, probe = Pending,
           selected = Postgresql\<rparr>"
  let ?s' = "\<lparr>mode = Demo, pool = Some Pool, poolReady = Settled, probe = Settled,
           selected = Postgresql\<rparr>"
  have l: "load Map.empty Init_ok = Some ?s"
    by (simp add: load_def selected_mode_def FORCE_DEMO_def USE_MSSQL_def USE_ORACLE_def truthy_def)
  have r: "run [Query_run] ?s = Some ?s" by simp
  have f: "fire Probe_rejected ?s = Some ?s'" by simp
  from mode_one_way [OF l r f] l r f show ?thesis by simp
qed

subsection \<open>Queries while the mode degrades\<close>

text \<open>
  The query functions of the SQL Server and Oracle branches wait for \<^verbatim>\<open>poolReady\<close> and
  then look at the mode: in demo mode they return no rows and make no call on the pool.
\<close>

lemma query_waits_then_rechecks:
  assumes "selected s = Mssql \<or> selected s = Oracle"
  shows "poolReady s = Pending \<Longrightarrow> query drv s text params = None"
    and "poolReady s = Settled \<Longrightarrow> mode s = Demo \<Longrightarrow>
         query drv s text params = Some \<lparr>outcome = Returned [], pool_calls = []\<rparr>"
  using assms by (auto simp: query_def)

lemma mssql_connect_failure_scenario:
  assumes "selected_mode e = Mssql"
  shows "\<exists>s0 s1. load e ci = Some s0 \<and> query drv s0 text params = None \<and>
           fire Connect_rejected s0 = Some s1 \<and> mode s1 = Demo \<and>
           query drv s1 text params = Some \<lparr>outcome = Returned [], pool_calls = []\<rparr>"
  using assms by (simp add: load_def query_def)

text \<open>
  C5. The query function of the PostgreSQL branch neither waits nor looks at the mode.
  With no setting in the environment the PostgreSQL branch is selected; after the probe
  is rejected the mode is demo, and a query still calls the pool and throws what the
  driver rejects with.
\<close>

theorem postgresql_query_ignores_demo:
  "Option.bind (load Map.empty Init_ok) (\<lambda>s0.
     Option.bind (fire Probe_rejected s0) (\<lambda>s1.
       Some (mode s1, query (\<lambda>req. Rejected ''ECONNREFUSED'') s1 ''SELECT 1'' (Some [])))) =
   Some (Demo, Some \<lparr>outcome = (Threw ''ECONNREFUSED'' :: unit outcome),
                     pool_calls = [Pg_query ''SELECT 1'' (Some [])]\<rparr>)"
  by (simp add: load_def selected_mode_def FORCE_DEMO_def USE_MSSQL_def USE_ORACLE_def truthy_def
      query_def)

subsection \<open>The scenario of the specification\<close>

lemma oracle_scenario:
  "translateToOracle scenario_text scenario_binds =
     \<lparr>ora_sql = scenario_oracle_sql, ora_binds = [(''1'', Str ''%abc%'')],
      ora_filteredParams = Some [Str ''%abc%'']\<rparr>"
  by code_simp

lemma mssql_scenario:
  "translateToMssql scenario_text scenario_binds =
     \<lparr>ms_sql = scenario_mssql_sql, ms_filteredParams = Some [Str ''%abc%'']\<rparr>"
  by code_simp

text \<open>
  C2, as amended. The Oracle translation of the scenario keeps the one bind \<open>%abc%\<close>,
  numbered 1, and yields the text below: the comparison
  \<^verbatim>\<open>WHERE UPPER(name) LIKE UPPER(:1)\<close> inside a subquery that is bounded by
  \<^verbatim>\<open>ROWNUM <= 15\<close>, inside a query bounded by \<^verbatim>\<open>rn > 10\<close>.
\<close>

theorem oracle_scenario_result:
  "ora_filteredParams (translateToOracle scenario_text scenario_binds) = Some [Str ''%abc%''] \<and>
   ora_binds (translateToOracle scenario_text scenario_binds) = [(''1'', Str ''%abc%'')] \<and>
   ora_sql (translateToOracle scenario_text scenario_binds) =
     ''SELECT * FROM ('' @ [CHR 0x0A] @
     ''      SELECT a.*, ROWNUM rn FROM ('' @
     ''SELECT * FROM t WHERE UPPER(name) LIKE UPPER(:1)'' @ '') a'' @ [CHR 0x0A] @
     ''      WHERE ROWNUM <= 15'' @ [CHR 0x0A] @
     ''    ) WHERE rn > 10'' \<and>
   contains False ''WHERE UPPER(name) LIKE UPPER(:1)''
     (ora_sql (translateToOracle scenario_text scenario_binds)) \<and>
   contains False ''ROWNUM <= 15'' (ora_sql (translateToOracle scenario_text scenario_binds)) \<and>
   ends_with ''rn > 10'' (ora_sql (translateToOracle scenario_text scenario_binds))"
  unfolding oracle_scenario by (simp add: scenario_oracle_sql_def ends_with_def)

text \<open>C2 as stated fails: the text \<^verbatim>\<open>rn <= 15\<close> does not occur in the translation.\<close>

theorem oracle_scenario_counterexample:
  "\<not> contains False ''rn <= 15'' (ora_sql (translateToOracle scenario_text scenario_binds))"
  unfolding oracle_scenario by (simp add: scenario_oracle_sql_def)

text \<open>
  C3. The SQL Server translation of the scenario keeps the one bind \<open>%abc%\<close> and yields a
  text that has \<^verbatim>\<open>@p1\<close> where \<^verbatim>\<open>$1\<close> was, contains \<^verbatim>\<open>name LIKE @p1\<close> and ends with
  \<^verbatim>\<open>OFFSET 10 ROWS FETCH NEXT 5 ROWS ONLY\<close>.
\<close>

theorem mssql_scenario_result:
  "ms_filteredParams (translateToMssql scenario_text scenario_binds) = Some [Str ''%abc%''] \<and>
   ms_sql (translateToMssql scenario_text scenario_binds) =
     ''SELECT * FROM t WHERE name LIKE @p1 OFFSET 10 ROWS FETCH NEXT 5 ROWS ONLY'' \<and>
   contains False ''@p1'' (ms_sql (translateToMssql scenario_text scenario_binds)) \<and>
   \<not> contains False ''$1'' (ms_sql (translateToMssql scenario_text scenario_binds)) \<and>
   contains False ''name LIKE @p1'' (ms_sql (translateToMssql scenario_text scenario_binds)) \<and>
   ends_with ''OFFSET 10 ROWS FETCH NEXT 5 ROWS ONLY''
     (ms_sql (translateToMssql scenario_text scenario_binds))"
  unfolding mssql_scenario by (simp add: scenario_mssql_sql_def ends_with_def)

subsection \<open>Texts without a clause, and texts with several comparisons\<close>










subsection \<open>Removing the pagination clause\<close>










subsection \<open>Removing the two binds\<close>






subsection \<open>Matching in a text that is continued\<close>














subsection \<open>The alias rewrite inside the row-number wrapper\<close>










subsection \<open>The pagination rewrite of the Oracle translator\<close>



end
